theory Spec2Isabelle
  imports
    Main
    "HOL-Library.Word"
    "HOL-Library.Char_ord"
    "HOL-Library.List_Lexorder"
    "HOL-Library.Multiset"
begin

unbundle bit_operations_syntax

section \<open>Go values shared by the gitserver client\<close>

text \<open>
  The package under study is \<open>gitserver\<close> (the client of the git shards) together with the
  GraphQL resolver that memoizes its \<open>RepoInfo\<close> call. Go strings and byte slices are
  sequences of bytes; they are modelled as \<open>string\<close>, and a nil slice as the empty list.
  A Go function that can panic returns an \<open>outcome\<close>; a Go \<open>error\<close> result is an
  \<open>error option\<close>, \<open>None\<close> being nil.
\<close>

type_synonym byte = "8 word"

datatype error =
    Canceled
  | DeadlineExceeded
  | EOF
  | TransportError string
  | SyntaxError string
  | NumError string string
  | RepoNotExistError bool
  | UnexpectedStatusCode int
  | RepoInfoStatus int
  | URLError string string error
  | ErrorsNew string
  | ExecErrorf string string
  | ExitStatusErrorf string string
  | NotSiteAdmin

text \<open>
  \<open>Canceled\<close>, \<open>DeadlineExceeded\<close>: the two values of \<open>ctx.Err()\<close>. \<open>EOF\<close>: \<open>io.EOF\<close>.
  \<open>NumError num msg\<close>: the \<open>*strconv.NumError\<close> of \<open>Atoi\<close>.
  \<open>RepoNotExistError b\<close>: \<open>vcs.RepoNotExistError{CloneInProgress: b}\<close>.
  \<open>UnexpectedStatusCode n\<close>: \<open>fmt.Errorf("unexpected status code: %d", n)\<close>.
  \<open>URLError url op e\<close>: \<open>&url.Error{URL, Op, Err}\<close>, and \<open>RepoInfoStatus n\<close> is
  \<open>fmt.Errorf("RepoInfo: http status %d", n)\<close>.
  \<open>ErrorsNew m\<close>: \<open>errors.New(m)\<close>.
  \<open>ExecErrorf m s\<close>: \<open>fmt.Errorf("%s (stderr: %q)", m, s)\<close>.
  \<open>ExitStatusErrorf x s\<close>: \<open>fmt.Errorf("non-zero exit status: %s (stderr: %q)", x, s)\<close>.
\<close>

datatype 'a outcome = Panics string | Returns 'a

subsection \<open>http.Header\<close>

type_synonym Header = "string \<rightharpoonup> string list"

definition Header_Get :: "Header \<Rightarrow> string \<Rightarrow> string" where
  "Header_Get h key = (case h key of None \<Rightarrow> [] | Some [] \<Rightarrow> [] | Some (v # vs) \<Rightarrow> v)"

subsection \<open>io.Reader and ioutil.ReadAll\<close>

text \<open>
  A reader is the script of what its successive \<open>Read\<close> calls return: the bytes placed in
  the buffer and the error. The \<open>io.Reader\<close> contract allows bytes and \<open>io.EOF\<close> in the same
  call. A reader whose script is used up reports \<open>(0, io.EOF)\<close>.
\<close>

type_synonym ReadCloser = "(string \<times> error option) list"

definition Read :: "ReadCloser \<Rightarrow> (string \<times> error option) \<times> ReadCloser" where
  "Read r = (case r of [] \<Rightarrow> (([], Some EOF), []) | x # rest \<Rightarrow> (x, rest))"

fun ReadAll :: "ReadCloser \<Rightarrow> string \<times> error option" where
  "ReadAll [] = ([], None)"
| "ReadAll ((p, None) # rest) = (case ReadAll rest of (q, e) \<Rightarrow> (p @ q, e))"
| "ReadAll ((p, Some e) # rest) = (p, if e = EOF then None else Some e)"

subsection \<open>strconv.Atoi (64-bit int)\<close>

definition digit_val :: "char \<Rightarrow> int option" where
  "digit_val ch = (if (48::int) \<le> of_char ch \<and> of_char ch \<le> (57::int)
                   then Some (of_char ch - 48) else None)"

fun parse_digits :: "int \<Rightarrow> string \<Rightarrow> int option" where
  "parse_digits n [] = Some n"
| "parse_digits n (ch # s) =
     (case digit_val ch of None \<Rightarrow> None | Some d \<Rightarrow> parse_digits (n * 10 + d) s)"

definition ErrSyntax :: string where "ErrSyntax = ''invalid syntax''"
definition ErrRange :: string where "ErrRange = ''value out of range''"

text \<open>
  An optional sign, then decimal digits only; the empty string, a lone sign and any other
  byte are syntax errors. A value outside \<open>int64\<close> is a range error (the nearest bound
  is returned with it).
\<close>

definition Atoi :: "string \<Rightarrow> int \<times> error option" where
  "Atoi s0 =
     (case s0 of
        [] \<Rightarrow> (0, Some (NumError s0 ErrSyntax))
      | c # r \<Rightarrow>
          (let s = (if c = CHR ''-'' \<or> c = CHR ''+'' then r else s0) in
           if s = [] then (0, Some (NumError s0 ErrSyntax))
           else case parse_digits 0 s of
                  None \<Rightarrow> (0, Some (NumError s0 ErrSyntax))
                | Some n \<Rightarrow>
                    (if c = CHR ''-''
                     then (if 9223372036854775808 < n
                           then (- 9223372036854775808, Some (NumError s0 ErrRange))
                           else (- n, None))
                     else (if 9223372036854775808 \<le> n
                           then (9223372036854775807, Some (NumError s0 ErrRange))
                           else (n, None)))))"

subsection \<open>encoding/binary: BigEndian.Uint64\<close>

definition BigEndian_Uint64 :: "byte list \<Rightarrow> 64 word outcome" where
  "BigEndian_Uint64 b =
     (if length b < 8 then Panics ''index out of range''
      else Returns (foldl (\<lambda>acc x. push_bit 8 acc OR ucast x) 0 (take 8 b)))"

section \<open>The client, its requests and the world it acts on\<close>

record Client =
  Addrs :: "string list"
  NoCreds :: bool

record Repo =
  URI :: string

record Cmd =
  client :: Client
  Args :: "string list"
  Repo :: "Repo option"
  EnsureRevision :: string
  ExitStatus :: int

datatype payload =
    ExecRequest string string "string list"
  | RepoInfoRequest string

record Request =
  Method :: string
  URL :: string
  Payload :: payload

record Response =
  StatusCode :: int
  Body :: ReadCloser
  Trailer :: Header
  RequestURL :: string

record Context =
  Err :: "error option"
  actor :: nat

text \<open>
  The observable state: the Prometheus counter \<open>src_gitserver_client_deadline_exceeded\<close> and
  the HTTP requests handed to the transport so far, oldest first.
\<close>

record World =
  deadlineExceededCounter :: nat
  requests :: "Request list"

text \<open>
  What the client calls but this package does not define. \<open>NormalizeRepo\<close> is
  \<open>protocol.NormalizeRepo\<close>, \<open>md5_Sum\<close> is \<open>crypto/md5.Sum\<close> (its result has type
  \<open>[16]byte\<close>), \<open>url_Parse\<close> gives the error of \<open>net/url.Parse\<close>, \<open>Do\<close> is the HTTP
  transport (\<open>http.Client.Do\<close>), whose answer may depend on everything sent before, the three
  decoders are \<open>json.NewDecoder(body).Decode\<close> at the three result types,
  \<open>CheckCurrentUserIsSiteAdmin\<close> is the function of package \<open>backend\<close>, \<open>Format_RFC3339\<close>
  is \<open>time.Time.Format(time.RFC3339)\<close> on a time given in seconds, and \<open>DefaultClient\<close> is
  the package variable of that name.
\<close>

record RepoInfoResponse =
  RemoteURL_of :: string
  Cloned_of :: bool
  CloneInProgress_of :: bool
  LastFetched :: "nat option"

record Env =
  DefaultClient :: Client
  NormalizeRepo :: "string \<Rightarrow> string"
  md5_Sum :: "byte list \<Rightarrow> byte list"
  url_Parse :: "string \<Rightarrow> error option"
  url_QueryEscape :: "string \<Rightarrow> string"
  Do :: "Request list \<Rightarrow> Request \<Rightarrow> error + Response"
  decodeNotFoundPayload :: "ReadCloser \<Rightarrow> bool \<times> error option"
  decodeStringList :: "ReadCloser \<Rightarrow> string list \<times> error option"
  decodeRepoInfoResponse :: "ReadCloser \<Rightarrow> RepoInfoResponse option \<times> error option"
  Format_RFC3339 :: "nat \<Rightarrow> string"
  CheckCurrentUserIsSiteAdmin :: "Context \<Rightarrow> error option"

definition bytes_of :: "string \<Rightarrow> byte list" where
  "bytes_of s = map of_char s"

subsection \<open>Client.httpPost\<close>

text \<open>
  The tracing span and the HTTP limiter change nothing that is observed here.
  \<open>http.NewRequest\<close> fails when the URL does not parse, before anything is sent.
\<close>

definition httpPost ::
  "Env \<Rightarrow> Context \<Rightarrow> string \<Rightarrow> string \<Rightarrow> payload \<Rightarrow> World \<Rightarrow> (error + Response) \<times> World" where
  "httpPost env ctx addr method p w =
     (let u = ''http://'' @ addr @ ''/'' @ method in
      case url_Parse env u of
        Some err \<Rightarrow> (Inl err, w)
      | None \<Rightarrow>
          (let req = \<lparr>Method = ''POST'', URL = u, Payload = p\<rparr>
           in (Do env (requests w) req, w\<lparr>requests := requests w @ [req]\<rparr>)))"

subsection \<open>Cmd.sendExec\<close>

definition sendExec ::
  "Env \<Rightarrow> Cmd \<Rightarrow> Context \<Rightarrow> World \<Rightarrow> (error + ReadCloser \<times> Header) outcome \<times> World" where
  "sendExec env c ctx w =
     (case Repo c of
        None \<Rightarrow> (Panics ''nil pointer dereference'', w)
      | Some repo \<Rightarrow>
          (let repoURI = NormalizeRepo env (URI repo) in
           if Args c = [] then (Panics ''slice bounds out of range'', w)
           else case Err ctx of
             Some err \<Rightarrow>
               (Returns (Inl err), w\<lparr>deadlineExceededCounter := deadlineExceededCounter w + 1\<rparr>)
           | None \<Rightarrow>
               (case BigEndian_Uint64 (md5_Sum env (bytes_of repoURI)) of
                  Panics m \<Rightarrow> (Panics m, w)
                | Returns h \<Rightarrow>
                    (let n = (of_nat (length (Addrs (client c))) :: 64 word) in
                     if n = 0 then (Panics ''integer divide by zero'', w)
                     else
                       (let serverIndex = h mod n in
                        if length (Addrs (client c)) \<le> unat serverIndex
                        then (Panics ''index out of range'', w)
                        else
                          (let addr = Addrs (client c) ! unat serverIndex;
                               req = ExecRequest repoURI (EnsureRevision c) (tl (Args c))
                           in case httpPost env ctx addr ''exec'' req w of
                                (Inl err, w') \<Rightarrow> (Returns (Inl err), w')
                              | (Inr resp, w') \<Rightarrow>
                                  (if StatusCode resp = 200
                                   then (Returns (Inr (Body resp, Trailer resp)), w')
                                   else if StatusCode resp = 404
                                   then (case decodeNotFoundPayload env (Body resp) of
                                           (cip, Some err) \<Rightarrow> (Returns (Inl err), w')
                                         | (cip, None) \<Rightarrow>
                                             (Returns (Inl (RepoNotExistError cip)), w'))
                                   else (Returns (Inl (UnexpectedStatusCode (StatusCode resp))),
                                         w'))))))))"

subsection \<open>Client.Command\<close>

text \<open>\<open>Command\<close> has no access to the transport: the world passes through unchanged.\<close>

definition Command :: "Client \<Rightarrow> string \<Rightarrow> string list \<Rightarrow> World \<Rightarrow> Cmd outcome \<times> World" where
  "Command c name arg w =
     (if name \<noteq> ''git'' then (Panics (''gitserver: command name must be 'git'' @ [CHR 0x27]), w)
      else (Returns \<lparr>client = c, Args = ''git'' # arg, Repo = None,
                     EnsureRevision = [], ExitStatus = 0\<rparr>, w))"

subsection \<open>Cmd.DividedOutput\<close>

definition DividedOutput ::
  "Env \<Rightarrow> Cmd \<Rightarrow> Context \<Rightarrow> World \<Rightarrow> (string \<times> string \<times> error option) outcome \<times> Cmd \<times> World" where
  "DividedOutput env c ctx w =
     (case sendExec env c ctx w of
        (Panics m, w') \<Rightarrow> (Panics m, c, w')
      | (Returns (Inl err), w') \<Rightarrow> (Returns ([], [], Some err), c, w')
      | (Returns (Inr (body, trailer)), w') \<Rightarrow>
          (case ReadAll body of
             (stdout, Some err) \<Rightarrow> (Returns ([], [], Some err), c, w')
           | (stdout, None) \<Rightarrow>
               (case Atoi (Header_Get trailer ''X-Exec-Exit-Status'') of
                  (n, Some err) \<Rightarrow> (Returns ([], [], Some err), c\<lparr>ExitStatus := n\<rparr>, w')
                | (n, None) \<Rightarrow>
                    (let stderr = Header_Get trailer ''X-Exec-Stderr'';
                         errorMsg = Header_Get trailer ''X-Exec-Error''
                     in if errorMsg \<noteq> []
                        then (Returns (stdout, stderr, Some (ErrorsNew errorMsg)),
                              c\<lparr>ExitStatus := n\<rparr>, w')
                        else (Returns (stdout, stderr, None), c\<lparr>ExitStatus := n\<rparr>, w')))))"

subsection \<open>StdoutReader and cmdReader\<close>

record cmdReader =
  rc :: ReadCloser
  trailer :: Header

definition StdoutReader ::
  "Env \<Rightarrow> Context \<Rightarrow> Cmd \<Rightarrow> World \<Rightarrow> (error + cmdReader) outcome \<times> World" where
  "StdoutReader env ctx c w =
     (case sendExec env c ctx w of
        (Panics m, w') \<Rightarrow> (Panics m, w')
      | (Returns (Inl err), w') \<Rightarrow> (Returns (Inl err), w')
      | (Returns (Inr (body, tr)), w') \<Rightarrow> (Returns (Inr \<lparr>rc = body, trailer = tr\<rparr>), w'))"

text \<open>
  \<open>cmdReader.Read\<close>: the result is the bytes the caller is told about (the first \<open>n\<close> of
  its buffer) and the error.
\<close>

definition cmdReader_Read :: "cmdReader \<Rightarrow> (string \<times> error option) \<times> cmdReader" where
  "cmdReader_Read c =
     (case Read (rc c) of
        ((p, err), rest) \<Rightarrow>
          (let c' = c\<lparr>rc := rest\<rparr> in
           if err = Some EOF then
             (let stderr0 = Header_Get (trailer c) ''X-Exec-Stderr'';
                  stderr = (if 100 < length stderr0
                            then take 100 stderr0 @ ''... (truncated)'' else stderr0);
                  errorMsg = Header_Get (trailer c) ''X-Exec-Error''
              in if errorMsg \<noteq> [] then (([], Some (ExecErrorf errorMsg stderr)), c')
                 else
                   (let exitStatus = Header_Get (trailer c) ''X-Exec-Exit-Status''
                    in if exitStatus \<noteq> ''0''
                       then (([], Some (ExitStatusErrorf exitStatus stderr)), c')
                       else ((p, err), c')))
           else ((p, err), c')))"

text \<open>
  The caller's side of an \<open>io.Reader\<close>: read until a call reports an error, keeping the
  bytes of every call, those of the last one included.
\<close>

function readToEnd :: "cmdReader \<Rightarrow> string \<times> error" where
  "readToEnd c =
     (case cmdReader_Read c of
        ((p, Some e), c') \<Rightarrow> (p, e)
      | ((p, None), c') \<Rightarrow> (case readToEnd c' of (q, e) \<Rightarrow> (p @ q, e)))"
  by pat_completeness auto
termination
  apply (relation "measure (\<lambda>c. length (rc c))")
   apply simp
  subgoal for c x1 x2 x1a x2a
    by (cases "rc c") (auto simp: cmdReader_Read_def Read_def Let_def split: if_splits)
  done

declare readToEnd.simps [simp del]

subsection \<open>The list fan-out\<close>

text \<open>
  \<open>doListOne\<close>, from what \<open>ctxhttp.Get(ctx, nil, "http://"+addr+"/list"+urlSuffix)\<close> gave it.
\<close>

definition doListOne :: "Env \<Rightarrow> error + Response \<Rightarrow> string list \<times> error option" where
  "doListOne env got =
     (case got of
        Inl err \<Rightarrow> ([], Some err)
      | Inr resp \<Rightarrow> decodeStringList env (Body resp))"

text \<open>
  The variables the goroutines of \<open>doListMulti\<close> share under the mutex; \<open>cancelled\<close> records
  that a goroutine has called \<open>cancel()\<close>.
\<close>

record fanout =
  err :: "error option"
  combinedList :: "string list"
  cancelled :: bool

definition worker :: "Env \<Rightarrow> fanout \<Rightarrow> error + Response \<Rightarrow> fanout" where
  "worker env s got =
     (case doListOne env got of
        (list, listErr) \<Rightarrow>
          (let s' = (if listErr \<noteq> None \<and> listErr \<noteq> Some Canceled \<and> err s = None
                     then s\<lparr>cancelled := True, err := listErr\<rparr> else s)
           in s'\<lparr>combinedList := combinedList s' @ list\<rparr>))"

text \<open>
  The mutex makes the critical sections of the goroutines run one after the other, in some
  order. \<open>gets\<close> lists, in that order, what \<open>ctxhttp.Get\<close> returned to each goroutine; there
  is one entry for each address.
\<close>

definition workers :: "Env \<Rightarrow> (error + Response) list \<Rightarrow> fanout" where
  "workers env gets =
     foldl (worker env) \<lparr>err = None, combinedList = [], cancelled = False\<rparr> gets"

definition doListMulti :: "Env \<Rightarrow> (error + Response) list \<Rightarrow> string list \<times> error option" where
  "doListMulti env gets =
     (if length gets = 1 then doListOne env (hd gets)
      else (let s = workers env gets in (sort (combinedList s), err s)))"

subsection \<open>Client.RepoInfo\<close>

definition RepoInfo ::
  "Env \<Rightarrow> Client \<Rightarrow> Context \<Rightarrow> string \<Rightarrow> World
     \<Rightarrow> (RepoInfoResponse option \<times> error option) outcome \<times> World" where
  "RepoInfo env c ctx repo w =
     (case Addrs c of
        [] \<Rightarrow> (Panics ''index out of range'', w)
      | a # _ \<Rightarrow>
          (case httpPost env ctx a ''repo'' (RepoInfoRequest repo) w of
             (Inl e, w') \<Rightarrow> (Returns (None, Some e), w')
           | (Inr resp, w') \<Rightarrow>
               (if StatusCode resp \<noteq> 200
                then (Returns (None, Some (URLError (RequestURL resp) ''RepoInfo''
                                             (RepoInfoStatus (StatusCode resp)))), w')
                else (Returns (decodeRepoInfoResponse env (Body resp)), w'))))"

subsection \<open>Client.UploadPack\<close>

datatype proxied = ProxyTo string | HttpError int error

definition UploadPack :: "Env \<Rightarrow> Client \<Rightarrow> string \<Rightarrow> proxied outcome" where
  "UploadPack env c repoURI0 =
     (let repoURI = NormalizeRepo env repoURI0 in
      case BigEndian_Uint64 (md5_Sum env (bytes_of repoURI)) of
        Panics m \<Rightarrow> Panics m
      | Returns h \<Rightarrow>
          (let n = (of_nat (length (Addrs c)) :: 64 word) in
           if n = 0 then Panics ''integer divide by zero''
           else
             (let serverIndex = h mod n in
              if length (Addrs c) \<le> unat serverIndex then Panics ''index out of range''
              else
                (let addr = Addrs c ! unat serverIndex;
                     u = ''http://'' @ addr @ ''/upload-pack?repo='' @ url_QueryEscape env repoURI
                 in case url_Parse env u of
                      Some e \<Rightarrow> Returns (HttpError 500 e)
                    | None \<Rightarrow> Returns (ProxyTo u)))))"

section \<open>The resolver that memoizes RepoInfo\<close>

record repositoryMirrorInfoResolver =
  repository :: string
  repoInfoOnce :: bool
  repoInfoResponse :: "RepoInfoResponse option"
  repoInfoErr :: "error option"

definition MirrorInfo :: "string \<Rightarrow> repositoryMirrorInfoResolver" where
  "MirrorInfo uri =
     \<lparr>repository = uri, repoInfoOnce = False, repoInfoResponse = None, repoInfoErr = None\<rparr>"

text \<open>
  \<open>sync.Once.Do\<close> marks itself done also when the function it runs panics; the panic then
  reaches the caller and the two fields stay nil.
\<close>

definition gitserverRepoInfo ::
  "Env \<Rightarrow> repositoryMirrorInfoResolver \<Rightarrow> Context \<Rightarrow> World
     \<Rightarrow> (RepoInfoResponse option \<times> error option) outcome
        \<times> repositoryMirrorInfoResolver \<times> World" where
  "gitserverRepoInfo env r ctx w =
     (if repoInfoOnce r then (Returns (repoInfoResponse r, repoInfoErr r), r, w)
      else
        (case RepoInfo env (DefaultClient env) ctx (repository r) w of
           (Panics m, w') \<Rightarrow> (Panics m, r\<lparr>repoInfoOnce := True\<rparr>, w')
         | (Returns (info, e), w') \<Rightarrow>
             (Returns (info, e),
              r\<lparr>repoInfoOnce := True, repoInfoResponse := info, repoInfoErr := e\<rparr>, w')))"

datatype gqlvalue = VString string | VBool bool | VStringPtr "string option"

definition RemoteURL ::
  "Env \<Rightarrow> repositoryMirrorInfoResolver \<Rightarrow> Context \<Rightarrow> World
     \<Rightarrow> (gqlvalue \<times> error option) outcome \<times> repositoryMirrorInfoResolver \<times> World" where
  "RemoteURL env r ctx w =
     (case CheckCurrentUserIsSiteAdmin env ctx of
        Some e \<Rightarrow> (Returns (VString [], Some e), r, w)
      | None \<Rightarrow>
          (case gitserverRepoInfo env r ctx w of
             (Panics m, r', w') \<Rightarrow> (Panics m, r', w')
           | (Returns (info, Some e), r', w') \<Rightarrow> (Returns (VString [], Some e), r', w')
           | (Returns (None, None), r', w') \<Rightarrow> (Panics ''nil pointer dereference'', r', w')
           | (Returns (Some i, None), r', w') \<Rightarrow>
               (Returns (VString (RemoteURL_of i), None), r', w')))"

definition Cloned ::
  "Env \<Rightarrow> repositoryMirrorInfoResolver \<Rightarrow> Context \<Rightarrow> World
     \<Rightarrow> (gqlvalue \<times> error option) outcome \<times> repositoryMirrorInfoResolver \<times> World" where
  "Cloned env r ctx w =
     (case gitserverRepoInfo env r ctx w of
        (Panics m, r', w') \<Rightarrow> (Panics m, r', w')
      | (Returns (info, Some e), r', w') \<Rightarrow> (Returns (VBool False, Some e), r', w')
      | (Returns (None, None), r', w') \<Rightarrow> (Panics ''nil pointer dereference'', r', w')
      | (Returns (Some i, None), r', w') \<Rightarrow> (Returns (VBool (Cloned_of i), None), r', w'))"

definition CloneInProgress ::
  "Env \<Rightarrow> repositoryMirrorInfoResolver \<Rightarrow> Context \<Rightarrow> World
     \<Rightarrow> (gqlvalue \<times> error option) outcome \<times> repositoryMirrorInfoResolver \<times> World" where
  "CloneInProgress env r ctx w =
     (case gitserverRepoInfo env r ctx w of
        (Panics m, r', w') \<Rightarrow> (Panics m, r', w')
      | (Returns (info, Some e), r', w') \<Rightarrow> (Returns (VBool False, Some e), r', w')
      | (Returns (None, None), r', w') \<Rightarrow> (Panics ''nil pointer dereference'', r', w')
      | (Returns (Some i, None), r', w') \<Rightarrow>
          (Returns (VBool (CloneInProgress_of i), None), r', w'))"

definition UpdatedAt ::
  "Env \<Rightarrow> repositoryMirrorInfoResolver \<Rightarrow> Context \<Rightarrow> World
     \<Rightarrow> (gqlvalue \<times> error option) outcome \<times> repositoryMirrorInfoResolver \<times> World" where
  "UpdatedAt env r ctx w =
     (case gitserverRepoInfo env r ctx w of
        (Panics m, r', w') \<Rightarrow> (Panics m, r', w')
      | (Returns (info, Some e), r', w') \<Rightarrow> (Returns (VStringPtr None, Some e), r', w')
      | (Returns (None, None), r', w') \<Rightarrow> (Panics ''nil pointer dereference'', r', w')
      | (Returns (Some i, None), r', w') \<Rightarrow>
          (case LastFetched i of
             None \<Rightarrow> (Returns (VStringPtr None, None), r', w')
           | Some t \<Rightarrow> (Returns (VStringPtr (Some (Format_RFC3339 env t)), None), r', w')))"

text \<open>A sequence of GraphQL field resolutions on one resolver, each under its own context.\<close>

datatype field = FRemoteURL | FCloned | FCloneInProgress | FUpdatedAt

definition resolve ::
  "Env \<Rightarrow> field \<Rightarrow> repositoryMirrorInfoResolver \<Rightarrow> Context \<Rightarrow> World
     \<Rightarrow> (gqlvalue \<times> error option) outcome \<times> repositoryMirrorInfoResolver \<times> World" where
  "resolve env f =
     (case f of
        FRemoteURL \<Rightarrow> RemoteURL env
      | FCloned \<Rightarrow> Cloned env
      | FCloneInProgress \<Rightarrow> CloneInProgress env
      | FUpdatedAt \<Rightarrow> UpdatedAt env)"

fun resolveAll ::
  "Env \<Rightarrow> (field \<times> Context) list \<Rightarrow> repositoryMirrorInfoResolver \<Rightarrow> World
     \<Rightarrow> repositoryMirrorInfoResolver \<times> World" where
  "resolveAll env [] r w = (r, w)"
| "resolveAll env ((f, ctx) # cs) r w =
     (case resolve env f r ctx w of (res, r', w') \<Rightarrow> resolveAll env cs r' w')"

section \<open>The router of the specification\<close>

text \<open>
  Section 4.1 of the specification in its own words: normalize the identifier, digest the
  normalized bytes, read the first 8 bytes as a big-endian unsigned integer, take it modulo
  the number of addresses, index into the table. \<open>be_nat\<close> is the big-endian value of a
  byte sequence as a natural number.
\<close>

definition be_nat :: "byte list \<Rightarrow> nat" where
  "be_nat bs = foldl (\<lambda>acc x. acc * 256 + unat x) 0 bs"

definition route :: "Env \<Rightarrow> string list \<Rightarrow> string \<Rightarrow> string" where
  "route env addrs ident =
     addrs ! (be_nat (take 8 (md5_Sum env (bytes_of (NormalizeRepo env ident)))) mod length addrs)"

text \<open>
  Section 4.4 of the specification in its own words: the error to return is the first
  failure, in the order in which the workers record their results, that is not itself a
  cancellation.
\<close>

definition first_failure :: "error option list \<Rightarrow> error option" where
  "first_failure es =
     (case filter (\<lambda>e. e \<noteq> None \<and> e \<noteq> Some Canceled) es of [] \<Rightarrow> None | e # _ \<Rightarrow> e)"

section \<open>Sample inputs\<close>

text \<open>
  A client of three shards and a stand-in for what lies outside the package: repository
  names already normal, the MD5 digest of \<open>github.com/golang/go\<close>, URLs that always parse,
  decoders that know a few bodies, and user 1 as the only site admin. The transport is left
  open.
\<close>

definition sample_client :: Client where
  "sample_client =
     \<lparr>Addrs = [''gitserver-0:3178'', ''gitserver-1:3178'', ''gitserver-2:3178''],
      NoCreds = False\<rparr>"

definition sample_info :: RepoInfoResponse where
  "sample_info =
     \<lparr>RemoteURL_of = ''https://github.com/golang/go'', Cloned_of = True,
      CloneInProgress_of = False, LastFetched = None\<rparr>"

definition sample_env :: "(Request list \<Rightarrow> Request \<Rightarrow> error + Response) \<Rightarrow> Env" where
  \<open>sample_env transport =
     \<lparr>DefaultClient = sample_client,
      NormalizeRepo = (\<lambda>s. s),
      md5_Sum = (\<lambda>b. [184, 196, 5, 230, 45, 139, 157, 12, 209, 79, 104, 83, 82, 185, 66, 109]),
      url_Parse = (\<lambda>u. None),
      url_QueryEscape = (\<lambda>s. s),
      Do = transport,
      decodeNotFoundPayload =
        (\<lambda>b. if fst (ReadAll b) = ''{"cloneInProgress":true}'' then (True, None)
             else if fst (ReadAll b) = ''{"cloneInProgress":false}'' then (False, None)
             else (False, Some (SyntaxError ''unexpected end of JSON input''))),
      decodeStringList =
        (\<lambda>b. if fst (ReadAll b) = ''["a","b"]'' then ([''a'', ''b''], None)
             else if fst (ReadAll b) = ''["c"]'' then ([''c''], None)
             else if fst (ReadAll b) = ''["b","a"]'' then ([''b'', ''a''], None)
             else ([], Some (SyntaxError ''unexpected end of JSON input''))),
      decodeRepoInfoResponse = (\<lambda>b. (Some sample_info, None)),
      Format_RFC3339 = (\<lambda>t. ''1970-01-01T00:00:00Z''),
      CheckCurrentUserIsSiteAdmin = (\<lambda>ctx. if actor ctx = 1 then None else Some NotSiteAdmin)\<rparr>\<close>

definition respond :: "int \<Rightarrow> ReadCloser \<Rightarrow> Header \<Rightarrow> Request list \<Rightarrow> Request \<Rightarrow> error + Response" where
  "respond code body tr sent req =
     Inr \<lparr>StatusCode = code, Body = body, Trailer = tr, RequestURL = URL req\<rparr>"

definition sample_cmd :: Cmd where
  "sample_cmd =
     \<lparr>client = sample_client, Args = [''git'', ''log''],
      Repo = Some \<lparr>URI = ''github.com/golang/go''\<rparr>, EnsureRevision = [], ExitStatus = 0\<rparr>"

definition sample_world :: World where
  "sample_world = \<lparr>deadlineExceededCounter = 0, requests = []\<rparr>"

definition live :: Context where
  "live = \<lparr>Err = None, actor = 1\<rparr>"

definition expired :: Context where
  "expired = \<lparr>Err = Some DeadlineExceeded, actor = 1\<rparr>"

definition visitor :: Context where
  "visitor = \<lparr>Err = None, actor = 7\<rparr>"

section \<open>Routing\<close>

lemma shift_or_byte_plus:
  "push_bit 8 (w :: 64 word) OR ucast (x :: 8 word) = push_bit 8 w + ucast x"
  by (rule disjunctive_add [symmetric]) (auto simp: bit_push_bit_iff bit_ucast_iff dest: bit_imp_le_length)

lemma unat_byte_less: "unat (x :: 8 word) < 256"
  using unsigned_less [of x, where ?'a = nat] by simp

lemma shift_or_byte:
  fixes w :: "64 word" and x :: "8 word"
  assumes "unat w < 2 ^ 56"
  shows "unat (push_bit 8 w OR ucast x) = unat w * 256 + unat x"
proof -
  have a: "unat (push_bit 8 w) = unat w * 256"
    using assms by (simp add: push_bit_eq_mult unat_word_ariths)
  have b: "unat (ucast x :: 64 word) = unat x"
    using unat_byte_less [of x] by (simp add: unsigned_ucast_eq take_bit_nat_eq_self)
  have "unat w * 256 + unat x < 2 ^ 64"
    using assms unat_byte_less [of x] by simp
  then show ?thesis
    by (simp add: shift_or_byte_plus unat_word_ariths a b)
qed

lemma be_fold_unat:
  "length bs \<le> 8 \<Longrightarrow>
     unat (foldl (\<lambda>acc x. push_bit 8 acc OR ucast x) (0 :: 64 word) bs) = be_nat bs
     \<and> be_nat bs < 256 ^ length bs"
proof (induction bs rule: rev_induct)
  case Nil
  then show ?case by (simp add: be_nat_def)
next
  case (snoc x xs)
  let ?acc = "foldl (\<lambda>acc x. push_bit 8 acc OR ucast x) (0 :: 64 word) xs"
  from snoc have ih: "unat ?acc = be_nat xs" "be_nat xs < 256 ^ length xs" and len: "length xs \<le> 7"
    by simp_all
  have "(256::nat) ^ length xs \<le> 256 ^ 7"
    using len by (intro power_increasing) simp_all
  then have small: "unat ?acc < 2 ^ 56"
    using ih by simp
  have step: "be_nat (xs @ [x]) = be_nat xs * 256 + unat x"
    by (simp add: be_nat_def)
  have "be_nat xs * 256 + unat x < 256 ^ length xs * 256"
    using ih(2) unat_byte_less [of x] by simp
  then show ?case
    using shift_or_byte [OF small, of x] ih step by simp
qed


lemma serverIndex:
  assumes "addrs \<noteq> []" "length addrs < 2 ^ 63" "8 \<le> length d"
  shows "\<exists>h. BigEndian_Uint64 d = Returns h
           \<and> (of_nat (length addrs) :: 64 word) \<noteq> 0
           \<and> unat (h mod of_nat (length addrs)) = be_nat (take 8 d) mod length addrs
           \<and> be_nat (take 8 d) mod length addrs < length addrs"
proof -
  let ?h = "foldl (\<lambda>acc x. push_bit 8 acc OR ucast x) (0 :: 64 word) (take 8 d)"
  have h: "BigEndian_Uint64 d = Returns ?h"
    using assms(3) by (simp add: BigEndian_Uint64_def)
  have "length addrs < 2 ^ 64"
    using assms(2) by simp
  then have n: "unat (of_nat (length addrs) :: 64 word) = length addrs"
    by (simp add: unat_of_nat)
  have nz: "(of_nat (length addrs) :: 64 word) \<noteq> 0"
    using n assms(1) by (metis length_0_conv unat_0)
  have "unat ?h = be_nat (take 8 d)"
    using be_fold_unat [of "take 8 d"] by simp
  then have "unat (?h mod of_nat (length addrs)) = be_nat (take 8 d) mod length addrs"
    by (simp add: unat_mod n)
  moreover have "be_nat (take 8 d) mod length addrs < length addrs"
    using assms(1) by simp
  ultimately show ?thesis
    using h nz by blast
qed

lemma sendExec_routed:
  assumes "Addrs (client c) \<noteq> []" "length (Addrs (client c)) < 2 ^ 63"
    and "length (md5_Sum env (bytes_of (NormalizeRepo env ident))) = 16"
    and "Repo c = Some repo" "URI repo = ident" "Args c \<noteq> []" "Err ctx = None"
  shows "sendExec env c ctx w =
           (case httpPost env ctx (route env (Addrs (client c)) ident) ''exec''
                   (ExecRequest (NormalizeRepo env ident) (EnsureRevision c) (tl (Args c))) w of
              (Inl e, w') \<Rightarrow> (Returns (Inl e), w')
            | (Inr resp, w') \<Rightarrow>
                (if StatusCode resp = 200
                 then (Returns (Inr (Body resp, Trailer resp)), w')
                 else if StatusCode resp = 404
                 then (case decodeNotFoundPayload env (Body resp) of
                         (cip, Some e) \<Rightarrow> (Returns (Inl e), w')
                       | (cip, None) \<Rightarrow> (Returns (Inl (RepoNotExistError cip)), w'))
                 else (Returns (Inl (UnexpectedStatusCode (StatusCode resp))), w')))"
proof -
  let ?d = "md5_Sum env (bytes_of (NormalizeRepo env ident))"
  from assms(3) have "8 \<le> length ?d" by simp
  from serverIndex [OF assms(1,2) this] obtain h where
    h: "BigEndian_Uint64 ?d = Returns h"
       "(of_nat (length (Addrs (client c))) :: 64 word) \<noteq> 0"
       "unat (h mod of_nat (length (Addrs (client c))))
          = be_nat (take 8 ?d) mod length (Addrs (client c))"
       "be_nat (take 8 ?d) mod length (Addrs (client c)) < length (Addrs (client c))"
    by blast
  show ?thesis
    using assms(4-7) h by (simp add: sendExec_def Let_def route_def)
qed

lemma UploadPack_routed:
  assumes "Addrs cl \<noteq> []" "length (Addrs cl) < 2 ^ 63"
    and "length (md5_Sum env (bytes_of (NormalizeRepo env ident))) = 16"
  shows "UploadPack env cl ident =
           (let u = ''http://'' @ route env (Addrs cl) ident @ ''/upload-pack?repo=''
                      @ url_QueryEscape env (NormalizeRepo env ident)
            in case url_Parse env u of
                 Some e \<Rightarrow> Returns (HttpError 500 e)
               | None \<Rightarrow> Returns (ProxyTo u))"
proof -
  let ?d = "md5_Sum env (bytes_of (NormalizeRepo env ident))"
  from assms(3) have "8 \<le> length ?d" by simp
  from serverIndex [OF assms(1,2) this] obtain h where
    h: "BigEndian_Uint64 ?d = Returns h"
       "(of_nat (length (Addrs cl)) :: 64 word) \<noteq> 0"
       "unat (h mod of_nat (length (Addrs cl))) = be_nat (take 8 ?d) mod length (Addrs cl)"
       "be_nat (take 8 ?d) mod length (Addrs cl) < length (Addrs cl)"
    by blast
  show ?thesis
    using h by (simp add: UploadPack_def Let_def route_def)
qed

lemma route_sample:
  "route (sample_env tr) (Addrs sample_client) ''github.com/golang/go'' = ''gitserver-2:3178''"
  by (simp add: route_def sample_env_def sample_client_def be_nat_def)

text \<open>
  C1. For a non-empty address table, \<open>sendExec\<close> and \<open>UploadPack\<close> both address the shard
  that the router of the specification names: the identifier is normalized, its MD5 digest
  taken, the first 8 bytes read as a big-endian unsigned 64-bit integer, reduced modulo the
  number of addresses, and the table indexed. The address is a function of the table and
  the identifier alone, so the same identifier and table always give the same address.
  The table has fewer than \<open>2^63\<close> entries (Go's \<open>len\<close> is an \<open>int\<close>), the digest has
  the 16 bytes of \<open>[16]byte\<close>, the command has its repository and program name set, the
  context is live and the two URLs parse.
\<close>

theorem routing_is_route:
  assumes "Addrs cl \<noteq> []" "length (Addrs cl) < 2 ^ 63"
    and "length (md5_Sum env (bytes_of (NormalizeRepo env ident))) = 16"
    and "client c = cl" "Repo c = Some repo" "URI repo = ident" "Args c \<noteq> []" "Err ctx = None"
    and "url_Parse env (''http://'' @ route env (Addrs cl) ident @ ''/exec'') = None"
    and "url_Parse env (''http://'' @ route env (Addrs cl) ident @ ''/upload-pack?repo=''
                          @ url_QueryEscape env (NormalizeRepo env ident)) = None"
  shows "requests (snd (sendExec env c ctx w))
           = requests w @
             [\<lparr>Method = ''POST'', URL = ''http://'' @ route env (Addrs cl) ident @ ''/exec'',
               Payload = ExecRequest (NormalizeRepo env ident) (EnsureRevision c) (tl (Args c))\<rparr>]
         \<and> UploadPack env cl ident
           = Returns (ProxyTo (''http://'' @ route env (Addrs cl) ident @ ''/upload-pack?repo=''
                                 @ url_QueryEscape env (NormalizeRepo env ident)))"
proof -
  have a: "Addrs (client c) \<noteq> []" "length (Addrs (client c)) < 2 ^ 63"
    using assms(1,2,4) by simp_all
  have "requests (snd (sendExec env c ctx w))
           = requests w @
             [\<lparr>Method = ''POST'', URL = ''http://'' @ route env (Addrs cl) ident @ ''/exec'',
               Payload = ExecRequest (NormalizeRepo env ident) (EnsureRevision c) (tl (Args c))\<rparr>]"
    using assms(4,9)
    by (simp add: sendExec_routed [OF a assms(3) assms(5-8)] httpPost_def Let_def
          split: sum.splits prod.splits option.splits)
  moreover have "UploadPack env cl ident
           = Returns (ProxyTo (''http://'' @ route env (Addrs cl) ident @ ''/upload-pack?repo=''
                                 @ url_QueryEscape env (NormalizeRepo env ident)))"
    using assms(10) by (simp add: UploadPack_routed [OF assms(1-3)] Let_def)
  ultimately show ?thesis by simp
qed

theorem routing_is_route_witness:
  "requests (snd (sendExec (sample_env (respond 200 [] Map.empty)) sample_cmd live sample_world))
     = [\<lparr>Method = ''POST'', URL = ''http://gitserver-2:3178/exec'',
         Payload = ExecRequest ''github.com/golang/go'' [] [''log'']\<rparr>]
   \<and> UploadPack (sample_env (respond 200 [] Map.empty)) sample_client ''github.com/golang/go''
     = Returns (ProxyTo ''http://gitserver-2:3178/upload-pack?repo=github.com/golang/go'')"
proof -
  let ?env = "sample_env (respond 200 [] Map.empty)"
  have t: "Addrs sample_client \<noteq> []" "length (Addrs sample_client) < 2 ^ 63"
    by (simp_all add: sample_client_def)
  have d: "length (md5_Sum ?env (bytes_of (NormalizeRepo ?env ''github.com/golang/go''))) = 16"
    by (simp add: sample_env_def)
  have c: "client sample_cmd = sample_client"
    "Repo sample_cmd = Some \<lparr>URI = ''github.com/golang/go''\<rparr>"
    "URI \<lparr>URI = ''github.com/golang/go''\<rparr> = ''github.com/golang/go''"
    "Args sample_cmd \<noteq> []" "Err live = None"
    by (simp_all add: sample_cmd_def live_def)
  have u: "url_Parse ?env (''http://'' @ route ?env (Addrs sample_client) ''github.com/golang/go''
                             @ ''/exec'') = None"
    "url_Parse ?env (''http://'' @ route ?env (Addrs sample_client) ''github.com/golang/go''
                       @ ''/upload-pack?repo=''
                       @ url_QueryEscape ?env (NormalizeRepo ?env ''github.com/golang/go'')) = None"
    by (simp_all add: sample_env_def)
  have n: "NormalizeRepo ?env ''github.com/golang/go'' = ''github.com/golang/go''"
    "url_QueryEscape ?env ''github.com/golang/go'' = ''github.com/golang/go''"
    by (simp_all add: sample_env_def)
  show ?thesis
    using routing_is_route [OF t d c u, of sample_world]
    by (simp add: route_sample n) (simp add: sample_cmd_def sample_world_def)
qed

section \<open>The security gate of Command\<close>

text \<open>
  C2. Building a command whose program name is not exactly \<open>git\<close> fails at once, with the
  panic of \<open>Command\<close>: no command value comes back that could be sent, and the world, with
  its record of the HTTP requests issued, is what it was before the call.
\<close>

theorem Command_rejects_other_programs:
  "name \<noteq> ''git'' \<Longrightarrow>
     Command c name arg w = (Panics (''gitserver: command name must be 'git'' @ [CHR 0x27]), w)"
  by (simp add: Command_def)

theorem Command_rejects_other_programs_witness:
  "''sh'' \<noteq> ''git'' \<and>
   Command sample_client ''sh'' [''-c'', ''id''] sample_world
     = (Panics (''gitserver: command name must be 'git'' @ [CHR 0x27]), sample_world)"
  using Command_rejects_other_programs [of "''sh''" sample_client "[''-c'', ''id'']" sample_world]
  by simp

section \<open>The expired-context check\<close>

lemma httpPost_counter:
  "deadlineExceededCounter (snd (httpPost env ctx addr m p w)) = deadlineExceededCounter w"
  by (simp add: httpPost_def Let_def split: option.splits)

lemma sendExec_live_counter:
  assumes "Err ctx = None"
  shows "deadlineExceededCounter (snd (sendExec env c ctx w)) = deadlineExceededCounter w"
proof -
  have h: "\<And>addr m p x w'. httpPost env ctx addr m p w = (x, w')
             \<Longrightarrow> deadlineExceededCounter w' = deadlineExceededCounter w"
    using httpPost_counter by (metis snd_conv)
  show ?thesis
    using assms
    by (auto simp: sendExec_def Let_def dest: h
          split: option.splits outcome.splits prod.splits sum.splits)
qed

lemma sample_exec:
  "sendExec (sample_env tr) sample_cmd live sample_world
     = (let req = \<lparr>Method = ''POST'', URL = ''http://gitserver-2:3178/exec'',
                     Payload = ExecRequest ''github.com/golang/go'' [] [''log'']\<rparr>;
            w' = \<lparr>deadlineExceededCounter = 0, requests = [req]\<rparr>
        in case tr [] req of
             Inl e \<Rightarrow> (Returns (Inl e), w')
           | Inr resp \<Rightarrow>
               (if StatusCode resp = 200 then (Returns (Inr (Body resp, Trailer resp)), w')
                else if StatusCode resp = 404
                then (case decodeNotFoundPayload (sample_env tr) (Body resp) of
                        (cip, Some e) \<Rightarrow> (Returns (Inl e), w')
                      | (cip, None) \<Rightarrow> (Returns (Inl (RepoNotExistError cip)), w'))
                else (Returns (Inl (UnexpectedStatusCode (StatusCode resp))), w')))"
proof -
  have t: "Addrs (client sample_cmd) \<noteq> []" "length (Addrs (client sample_cmd)) < 2 ^ 63"
    by (simp_all add: sample_client_def sample_cmd_def)
  have d: "length (md5_Sum (sample_env tr)
             (bytes_of (NormalizeRepo (sample_env tr) ''github.com/golang/go''))) = 16"
    by (simp add: sample_env_def)
  have c: "Repo sample_cmd = Some \<lparr>URI = ''github.com/golang/go''\<rparr>"
    "URI \<lparr>URI = ''github.com/golang/go''\<rparr> = ''github.com/golang/go''"
    "Args sample_cmd \<noteq> []" "Err live = None"
    by (simp_all add: sample_cmd_def live_def)
  have r: "route (sample_env tr) (Addrs (client sample_cmd)) ''github.com/golang/go''
             = ''gitserver-2:3178''"
    using route_sample [of tr] by (simp add: sample_cmd_def)
  have e: "NormalizeRepo (sample_env tr) ''github.com/golang/go'' = ''github.com/golang/go''"
    "url_Parse (sample_env tr) ''http://gitserver-2:3178/exec'' = None"
    "Do (sample_env tr) = tr"
    by (simp_all add: sample_env_def)
  show ?thesis
    unfolding sendExec_routed [OF t d c] r e
    by (simp add: httpPost_def e Let_def sample_world_def sample_cmd_def
          split: sum.splits)
qed

lemma sample_exec_200:
  "sendExec (sample_env (respond 200 body tr)) sample_cmd live sample_world
     = (Returns (Inr (body, tr)),
        \<lparr>deadlineExceededCounter = 0,
         requests = [\<lparr>Method = ''POST'', URL = ''http://gitserver-2:3178/exec'',
                      Payload = ExecRequest ''github.com/golang/go'' [] [''log'']\<rparr>]\<rparr>)"
  by (simp add: sample_exec respond_def Let_def)

text \<open>
  C8. The expired-context check runs before any attempt. When the context of the call has
  already expired, \<open>sendExec\<close>, and with it \<open>DividedOutput\<close> and \<open>StdoutReader\<close>, fails with
  the error of the context; the counter \<open>client_deadline_exceeded\<close> goes up by one and no
  HTTP request is issued. Under a live context the counter never moves, whatever the
  transport answers, so a failure in flight is not counted. The command has its repository
  and program name set (without them the Go code panics before the check).
\<close>

theorem expired_context_fails_fast:
  assumes "Repo c = Some repo" "Args c \<noteq> []" "Err ctx = Some e" "Err ctx' = None"
  shows "sendExec env c ctx w
           = (Returns (Inl e), w\<lparr>deadlineExceededCounter := deadlineExceededCounter w + 1\<rparr>)
       \<and> DividedOutput env c ctx w
           = (Returns ([], [], Some e), c,
              w\<lparr>deadlineExceededCounter := deadlineExceededCounter w + 1\<rparr>)
       \<and> StdoutReader env ctx c w
           = (Returns (Inl e), w\<lparr>deadlineExceededCounter := deadlineExceededCounter w + 1\<rparr>)
       \<and> requests (snd (sendExec env c ctx w)) = requests w
       \<and> deadlineExceededCounter (snd (sendExec env c ctx' w)) = deadlineExceededCounter w"
proof -
  have s: "sendExec env c ctx w
           = (Returns (Inl e), w\<lparr>deadlineExceededCounter := deadlineExceededCounter w + 1\<rparr>)"
    using assms(1-3) by (simp add: sendExec_def Let_def)
  show ?thesis
    using sendExec_live_counter [OF assms(4)]
    by (simp add: s DividedOutput_def StdoutReader_def)
qed

theorem expired_context_fails_fast_witness:
  "sendExec (sample_env (\<lambda>sent req. Inl (TransportError ''connection refused'')))
       sample_cmd expired sample_world
     = (Returns (Inl DeadlineExceeded), \<lparr>deadlineExceededCounter = 1, requests = []\<rparr>)
   \<and> DividedOutput (sample_env (\<lambda>sent req. Inl (TransportError ''connection refused'')))
       sample_cmd expired sample_world
     = (Returns ([], [], Some DeadlineExceeded), sample_cmd,
        \<lparr>deadlineExceededCounter = 1, requests = []\<rparr>)
   \<and> deadlineExceededCounter
       (snd (sendExec (sample_env (\<lambda>sent req. Inl (TransportError ''connection refused'')))
               sample_cmd live sample_world)) = 0"
proof -
  have h: "Repo sample_cmd = Some \<lparr>URI = ''github.com/golang/go''\<rparr>" "Args sample_cmd \<noteq> []"
    "Err expired = Some DeadlineExceeded" "Err live = None"
    by (simp_all add: sample_cmd_def expired_def live_def)
  show ?thesis
    using expired_context_fails_fast [OF h, of
        "sample_env (\<lambda>sent req. Inl (TransportError ''connection refused''))" sample_world]
    by (simp add: sample_world_def)
qed

section \<open>Decoding the trailers\<close>

lemma DividedOutput_200:
  assumes "sendExec env c ctx w = (Returns (Inr (body, tr)), w')" "ReadAll body = (out, None)"
  shows "DividedOutput env c ctx w =
           (case Atoi (Header_Get tr ''X-Exec-Exit-Status'') of
              (n, Some e) \<Rightarrow> (Returns ([], [], Some e), c\<lparr>ExitStatus := n\<rparr>, w')
            | (n, None) \<Rightarrow>
                (if Header_Get tr ''X-Exec-Error'' \<noteq> []
                 then (Returns (out, Header_Get tr ''X-Exec-Stderr'',
                                Some (ErrorsNew (Header_Get tr ''X-Exec-Error''))),
                       c\<lparr>ExitStatus := n\<rparr>, w')
                 else (Returns (out, Header_Get tr ''X-Exec-Stderr'', None),
                       c\<lparr>ExitStatus := n\<rparr>, w')))"
  using assms by (simp add: DividedOutput_def Let_def split: prod.splits option.splits)

lemma cmdReader_Read_EOF:
  assumes "Read (rc r) = ((p, Some EOF), rest)"
  shows "cmdReader_Read r =
           (let s = Header_Get (trailer r) ''X-Exec-Stderr'';
                t = (if 100 < length s then take 100 s @ ''... (truncated)'' else s);
                m = Header_Get (trailer r) ''X-Exec-Error'';
                x = Header_Get (trailer r) ''X-Exec-Exit-Status''
            in if m \<noteq> [] then (([], Some (ExecErrorf m t)), r\<lparr>rc := rest\<rparr>)
               else if x \<noteq> ''0'' then (([], Some (ExitStatusErrorf x t)), r\<lparr>rc := rest\<rparr>)
               else ((p, Some EOF), r\<lparr>rc := rest\<rparr>))"
  using assms by (simp add: cmdReader_Read_def Let_def)

lemma Atoi_error:
  "Atoi s = (n, Some e) \<Longrightarrow> e = NumError s ErrSyntax \<or> e = NumError s ErrRange"
  by (auto simp: Atoi_def Let_def split: list.splits if_splits option.splits)

lemma Atoi_samples:
  "Atoi [] = (0, Some (NumError [] ErrSyntax))"
  "Atoi ''0'' = (0, None)"
  "Atoi ''00'' = (0, None)"
  "Atoi ''1'' = (1, None)"
  by (simp_all add: Atoi_def digit_val_def)

text \<open>
  C3, as the code has it. For a command whose exec request returns a 200 response and
  whose body is read to its end: when the \<open>X-Exec-Exit-Status\<close> trailer does not parse as an
  integer, \<open>DividedOutput\<close> fails with the error of \<open>strconv.Atoi\<close> and returns neither stdout
  nor stderr, whatever the \<open>X-Exec-Error\<close> trailer holds; when it parses and the
  \<open>X-Exec-Error\<close> trailer is non-empty, the call returns that message as its failure, for
  every exit status, zero included, together with the stdout and stderr bytes.
\<close>

theorem DividedOutput_decodes_trailers:
  assumes "sendExec env c ctx w = (Returns (Inr (body, tr)), w')" "ReadAll body = (out, None)"
    and "Atoi (Header_Get tr ''X-Exec-Exit-Status'') = (n, r)"
  shows "(r = Some e \<longrightarrow>
            fst (DividedOutput env c ctx w) = Returns ([], [], Some e)
            \<and> (e = NumError (Header_Get tr ''X-Exec-Exit-Status'') ErrSyntax
               \<or> e = NumError (Header_Get tr ''X-Exec-Exit-Status'') ErrRange))
       \<and> (r = None \<and> Header_Get tr ''X-Exec-Error'' \<noteq> [] \<longrightarrow>
            fst (DividedOutput env c ctx w)
              = Returns (out, Header_Get tr ''X-Exec-Stderr'',
                         Some (ErrorsNew (Header_Get tr ''X-Exec-Error''))))"
  using assms(3) Atoi_error [of "Header_Get tr ''X-Exec-Exit-Status''" n e]
  by (simp add: DividedOutput_200 [OF assms(1,2)])

theorem DividedOutput_decodes_trailers_witness:
  "fst (DividedOutput
          (sample_env (respond 200 [(''ok'', Some EOF)]
             [''X-Exec-Exit-Status'' \<mapsto> [''0''], ''X-Exec-Stderr'' \<mapsto> [''warning''],
              ''X-Exec-Error'' \<mapsto> [''boom'']]))
          sample_cmd live sample_world)
     = Returns (''ok'', ''warning'', Some (ErrorsNew ''boom''))
   \<and> fst (DividedOutput
          (sample_env (respond 200 [(''ok'', Some EOF)]
             [''X-Exec-Exit-Status'' \<mapsto> [''zero'']]))
          sample_cmd live sample_world)
     = Returns ([], [], Some (NumError ''zero'' ErrSyntax))"
proof -
  let ?ta = "[''X-Exec-Exit-Status'' \<mapsto> [''0''], ''X-Exec-Stderr'' \<mapsto> [''warning''],
              ''X-Exec-Error'' \<mapsto> [''boom'']]"
  let ?tb = "[''X-Exec-Exit-Status'' \<mapsto> [''zero'']]"
  have b: "ReadAll [(''ok'', Some EOF)] = (''ok'', None)" by simp
  have a1: "Atoi (Header_Get ?ta ''X-Exec-Exit-Status'') = (0, None)"
    by (simp add: Header_Get_def Atoi_samples)
  have a2: "Atoi (Header_Get ?tb ''X-Exec-Exit-Status'') = (0, Some (NumError ''zero'' ErrSyntax))"
    by (simp add: Header_Get_def Atoi_def digit_val_def)
  show ?thesis
    using DividedOutput_decodes_trailers [OF sample_exec_200 b a1]
      DividedOutput_decodes_trailers [OF sample_exec_200 b a2,
        of "NumError ''zero'' ErrSyntax"]
    by (simp add: Header_Get_def)
qed

theorem DividedOutput_error_trailer_counterexample:
  "Header_Get [''X-Exec-Error'' \<mapsto> [''boom'']] ''X-Exec-Error'' = ''boom''
   \<and> sendExec (sample_env (respond 200 [(''ok'', Some EOF)] [''X-Exec-Error'' \<mapsto> [''boom'']]))
        sample_cmd live sample_world
     = (Returns (Inr ([(''ok'', Some EOF)], [''X-Exec-Error'' \<mapsto> [''boom'']])),
        \<lparr>deadlineExceededCounter = 0,
         requests = [\<lparr>Method = ''POST'', URL = ''http://gitserver-2:3178/exec'',
                      Payload = ExecRequest ''github.com/golang/go'' [] [''log'']\<rparr>]\<rparr>)
   \<and> fst (DividedOutput
          (sample_env (respond 200 [(''ok'', Some EOF)] [''X-Exec-Error'' \<mapsto> [''boom'']]))
          sample_cmd live sample_world)
     = Returns ([], [], Some (NumError [] ErrSyntax))
   \<and> fst (DividedOutput
          (sample_env (respond 200 [(''ok'', Some EOF)] [''X-Exec-Error'' \<mapsto> [''boom'']]))
          sample_cmd live sample_world)
     \<noteq> Returns (''ok'', [], Some (ErrorsNew ''boom''))"
  by (simp add: sample_exec_200 DividedOutput_200 [OF sample_exec_200] Header_Get_def
        Atoi_samples)

section \<open>Truncation of the captured stderr\<close>

text \<open>
  C7, as the code has it. The streaming reader, when its end-of-stream read reports a
  failure, puts the captured stderr into the error message cut to its first 100 bytes
  followed by the marker \<open>... (truncated)\<close> whenever it is longer than 100 bytes, so that
  at most 115 bytes of it are reported. \<open>DividedOutput\<close> does not shorten anything: it
  returns the whole \<open>X-Exec-Stderr\<close> trailer as stderr.
\<close>

theorem stderr_truncated_in_stream_errors:
  assumes "Read (rc r) = ((p, Some EOF), rest)"
    and "Header_Get (trailer r) ''X-Exec-Error'' \<noteq> []
         \<or> Header_Get (trailer r) ''X-Exec-Exit-Status'' \<noteq> ''0''"
    and "s = Header_Get (trailer r) ''X-Exec-Stderr''"
    and "t = (if 100 < length s then take 100 s @ ''... (truncated)'' else s)"
    and "sendExec env c ctx w = (Returns (Inr (body, tr)), w')" "ReadAll body = (out, None)"
    and "Atoi (Header_Get tr ''X-Exec-Exit-Status'') = (n, None)"
  shows "fst (cmdReader_Read r)
           = ([], Some (if Header_Get (trailer r) ''X-Exec-Error'' \<noteq> []
                        then ExecErrorf (Header_Get (trailer r) ''X-Exec-Error'') t
                        else ExitStatusErrorf (Header_Get (trailer r) ''X-Exec-Exit-Status'') t))
       \<and> length t \<le> 115
       \<and> fst (snd (case fst (DividedOutput env c ctx w) of Returns x \<Rightarrow> x))
           = Header_Get tr ''X-Exec-Stderr''"
proof -
  have "length t \<le> 115"
    using assms(4) by simp
  moreover have "fst (snd (case fst (DividedOutput env c ctx w) of Returns x \<Rightarrow> x))
           = Header_Get tr ''X-Exec-Stderr''"
    using assms(7) by (simp add: DividedOutput_200 [OF assms(5,6)])
  moreover have "fst (cmdReader_Read r)
           = ([], Some (if Header_Get (trailer r) ''X-Exec-Error'' \<noteq> []
                        then ExecErrorf (Header_Get (trailer r) ''X-Exec-Error'') t
                        else ExitStatusErrorf (Header_Get (trailer r) ''X-Exec-Exit-Status'') t))"
    using assms(2,3,4) by (auto simp: cmdReader_Read_EOF [OF assms(1)] Let_def)
  ultimately show ?thesis by blast
qed

lemma Read_sample: "Read [(p, Some EOF)] = ((p, Some EOF), [])"
  by (simp add: Read_def)

theorem stderr_truncated_in_stream_errors_witness:
  "fst (cmdReader_Read
          \<lparr>rc = [([], Some EOF)],
           trailer = [''X-Exec-Exit-Status'' \<mapsto> [''1''],
                      ''X-Exec-Stderr'' \<mapsto> [replicate 101 CHR ''e'']]\<rparr>)
     = ([], Some (ExitStatusErrorf ''1'' (replicate 100 CHR ''e'' @ ''... (truncated)'')))
   \<and> fst (snd (case fst (DividedOutput
          (sample_env (respond 200 [(''ok'', Some EOF)]
             [''X-Exec-Exit-Status'' \<mapsto> [''1''],
              ''X-Exec-Stderr'' \<mapsto> [replicate 101 CHR ''e'']]))
          sample_cmd live sample_world) of Returns x \<Rightarrow> x))
     = replicate 101 CHR ''e''"
proof -
  let ?tr = "[''X-Exec-Exit-Status'' \<mapsto> [''1''],
              ''X-Exec-Stderr'' \<mapsto> [replicate 101 CHR ''e'']]"
  let ?r = "\<lparr>rc = [([], Some EOF)], trailer = ?tr\<rparr>"
  have g: "Header_Get ?tr ''X-Exec-Exit-Status'' = ''1''" "Header_Get ?tr ''X-Exec-Error'' = []"
    "Header_Get ?tr ''X-Exec-Stderr'' = replicate 101 CHR ''e''"
    by (simp_all add: Header_Get_def)
  have h1: "Read (rc ?r) = (([], Some EOF), [])"
    by (simp add: Read_def)
  have h2: "Header_Get (trailer ?r) ''X-Exec-Error'' \<noteq> []
         \<or> Header_Get (trailer ?r) ''X-Exec-Exit-Status'' \<noteq> ''0''"
    using g by simp
  have h3: "replicate 101 CHR ''e'' = Header_Get (trailer ?r) ''X-Exec-Stderr''"
    using g by simp
  have tk: "take 100 (replicate 101 CHR ''e'') = replicate 100 CHR ''e''"
    by simp
  have h4: "replicate 100 CHR ''e'' @ ''... (truncated)''
        = (if 100 < length (replicate 101 CHR ''e'')
           then take 100 (replicate 101 CHR ''e'') @ ''... (truncated)''
           else replicate 101 CHR ''e'')"
    unfolding tk by simp
  have b: "ReadAll [(''ok'', Some EOF)] = (''ok'', None)" by simp
  have a: "Atoi (Header_Get ?tr ''X-Exec-Exit-Status'') = (1, None)"
    unfolding g by (rule Atoi_samples)
  show ?thesis
    using stderr_truncated_in_stream_errors [OF h1 h2 h3 h4 sample_exec_200 b a] g
    by simp
qed

theorem DividedOutput_returns_whole_stderr_counterexample:
  "length (replicate 101 CHR ''e'') = 101
   \<and> fst (DividedOutput
          (sample_env (respond 200 [(''ok'', Some EOF)]
             [''X-Exec-Exit-Status'' \<mapsto> [''1''],
              ''X-Exec-Stderr'' \<mapsto> [replicate 101 CHR ''e'']]))
          sample_cmd live sample_world)
     = Returns (''ok'', replicate 101 CHR ''e'', None)"
proof -
  let ?tr = "[''X-Exec-Exit-Status'' \<mapsto> [''1''],
              ''X-Exec-Stderr'' \<mapsto> [replicate 101 CHR ''e'']]"
  have g: "Header_Get ?tr ''X-Exec-Exit-Status'' = ''1''" "Header_Get ?tr ''X-Exec-Error'' = []"
    "Header_Get ?tr ''X-Exec-Stderr'' = replicate 101 CHR ''e''"
    by (simp_all add: Header_Get_def)
  have b: "ReadAll [(''ok'', Some EOF)] = (''ok'', None)" by simp
  show ?thesis
    unfolding DividedOutput_200 [OF sample_exec_200 b] g Atoi_samples by simp
qed

section \<open>The exit status at the end of a stream\<close>

text \<open>
  C10. At end-of-stream with an empty \<open>X-Exec-Error\<close> trailer, the streaming reader compares
  the \<open>X-Exec-Exit-Status\<close> trailer with the string \<open>0\<close>: on that string the end of the
  stream is passed on, on every other string, the empty string of a missing trailer and
  \<open>00\<close> included, the read reports a non-zero exit status. The buffering executor parses
  the trailer instead: on \<open>00\<close> it succeeds with exit status 0.
\<close>

theorem stream_compares_exit_status_with_0:
  assumes "Read (rc r) = ((p, Some EOF), rest)" "Header_Get (trailer r) ''X-Exec-Error'' = []"
    and "x = Header_Get (trailer r) ''X-Exec-Exit-Status''"
    and "s = Header_Get (trailer r) ''X-Exec-Stderr''"
    and "sendExec env c ctx w = (Returns (Inr (body, tr)), w')" "ReadAll body = (out, None)"
    and "Header_Get tr ''X-Exec-Exit-Status'' = ''00''" "Header_Get tr ''X-Exec-Error'' = []"
  shows "fst (cmdReader_Read r)
           = (if x = ''0'' then (p, Some EOF)
              else ([], Some (ExitStatusErrorf x
                      (if 100 < length s then take 100 s @ ''... (truncated)'' else s))))
       \<and> DividedOutput env c ctx w
           = (Returns (out, Header_Get tr ''X-Exec-Stderr'', None), c\<lparr>ExitStatus := 0\<rparr>, w')"
  using assms(2,3,4,7,8)
  by (simp add: cmdReader_Read_EOF [OF assms(1)] DividedOutput_200 [OF assms(5,6)]
        Atoi_samples Let_def)

theorem stream_compares_exit_status_with_0_witness:
  "fst (cmdReader_Read \<lparr>rc = [(''ok'', Some EOF)], trailer = [''X-Exec-Exit-Status'' \<mapsto> [''00'']]\<rparr>)
     = ([], Some (ExitStatusErrorf ''00'' []))
   \<and> fst (cmdReader_Read \<lparr>rc = [(''ok'', Some EOF)], trailer = Map.empty\<rparr>)
     = ([], Some (ExitStatusErrorf [] []))
   \<and> fst (cmdReader_Read \<lparr>rc = [(''ok'', Some EOF)], trailer = [''X-Exec-Exit-Status'' \<mapsto> [''0'']]\<rparr>)
     = (''ok'', Some EOF)
   \<and> fst (DividedOutput
          (sample_env (respond 200 [(''ok'', Some EOF)] [''X-Exec-Exit-Status'' \<mapsto> [''00'']]))
          sample_cmd live sample_world)
     = Returns (''ok'', [], None)"
proof -
  let ?dbl = "[''X-Exec-Exit-Status'' \<mapsto> [''00'']] :: Header"
  let ?one = "[''X-Exec-Exit-Status'' \<mapsto> [''0'']] :: Header"
  have b: "ReadAll [(''ok'', Some EOF)] = (''ok'', None)" by simp
  have g: "Header_Get ?dbl ''X-Exec-Exit-Status'' = ''00''" "Header_Get ?dbl ''X-Exec-Error'' = []"
    by (simp_all add: Header_Get_def)
  note th = stream_compares_exit_status_with_0 [OF _ _ refl refl sample_exec_200 b g]
  have "fst (cmdReader_Read \<lparr>rc = [(''ok'', Some EOF)], trailer = ?dbl\<rparr>)
          = ([], Some (ExitStatusErrorf ''00'' []))"
    using th [of "\<lparr>rc = [(''ok'', Some EOF)], trailer = ?dbl\<rparr>" "''ok''" "[]"]
    by (simp add: Read_def Header_Get_def)
  moreover have "fst (cmdReader_Read \<lparr>rc = [(''ok'', Some EOF)], trailer = Map.empty\<rparr>)
          = ([], Some (ExitStatusErrorf [] []))"
    using th [of "\<lparr>rc = [(''ok'', Some EOF)], trailer = Map.empty\<rparr>" "''ok''" "[]"]
    by (simp add: Read_def Header_Get_def)
  moreover have "fst (cmdReader_Read \<lparr>rc = [(''ok'', Some EOF)], trailer = ?one\<rparr>)
          = (''ok'', Some EOF)"
    using th [of "\<lparr>rc = [(''ok'', Some EOF)], trailer = ?one\<rparr>" "''ok''" "[]"]
    by (simp add: Read_def Header_Get_def)
  moreover have "fst (DividedOutput
          (sample_env (respond 200 [(''ok'', Some EOF)] ?dbl)) sample_cmd live sample_world)
     = Returns (''ok'', [], None)"
    using th [of "\<lparr>rc = [(''ok'', Some EOF)], trailer = ?one\<rparr>" "''ok''" "[]"]
    by (simp add: Read_def Header_Get_def)
  ultimately show ?thesis by blast
qed

section \<open>The streaming reader at the end of the stream\<close>

lemma cmdReader_Read_passes:
  assumes "Read (rc r) = ((p, e), rest)" "e \<noteq> Some EOF"
  shows "cmdReader_Read r = ((p, e), r\<lparr>rc := rest\<rparr>)"
  using assms by (simp add: cmdReader_Read_def Let_def)

text \<open>
  When every end-of-stream signal of the body comes in a read that carries no bytes, a
  caller that reads to the end receives all the bytes that \<open>ioutil.ReadAll\<close> would have
  read from the body, whatever the trailers say.
\<close>

lemma readToEnd_when_EOF_comes_alone:
  assumes "\<forall>(p, e) \<in> set script. e = Some EOF \<longrightarrow> p = []"
  shows "fst (readToEnd \<lparr>rc = script, trailer = t\<rparr>) = fst (ReadAll script)"
  using assms
proof (induction script)
  case Nil
  show ?case
    by (subst readToEnd.simps)
       (simp add: cmdReader_Read_def Read_def Let_def split: prod.splits option.splits)
next
  case (Cons x script)
  obtain p e where x: "x = (p, e)" by (cases x)
  show ?case
  proof (cases e)
    case None
    have r: "cmdReader_Read \<lparr>rc = (p, None) # script, trailer = t\<rparr>
               = ((p, None), \<lparr>rc = script, trailer = t\<rparr>)"
      by (simp add: cmdReader_Read_def Read_def)
    from Cons have ih: "fst (readToEnd \<lparr>rc = script, trailer = t\<rparr>) = fst (ReadAll script)"
      by simp
    show ?thesis
      unfolding x None
      using ih
      by (subst readToEnd.simps) (auto simp: r split: prod.splits)
  next
    case (Some err)
    show ?thesis
    proof (cases "err = EOF")
      case True
      with Cons.prems x Some have "p = []" by simp
      then show ?thesis
        by (subst readToEnd.simps)
           (simp add: cmdReader_Read_def Read_def Let_def x Some True)
    next
      case False
      then show ?thesis
        by (subst readToEnd.simps)
           (simp add: cmdReader_Read_def Read_def Let_def x Some)
    qed
  qed
qed

text \<open>
  C4, on the code. The underlying body may hand over its last bytes together with
  \<open>io.EOF\<close>, as Go's chunked HTTP body does when the data and the final chunk arrive
  together. With the exit status \<open>1\<close> in the trailer, \<open>cmdReader.Read\<close> then returns
  \<open>(0, error)\<close>: the caller reads to the end and has received none of the three bytes.
  With exit status \<open>0\<close> the same read passes the bytes on with \<open>io.EOF\<close>, and when the
  end of the stream comes in a read of its own the three bytes arrive before the error.
\<close>

theorem stream_drops_bytes_read_with_EOF:
  "cmdReader_Read \<lparr>rc = [(''abc'', Some EOF)], trailer = [''X-Exec-Exit-Status'' \<mapsto> [''1'']]\<rparr>
     = (([], Some (ExitStatusErrorf ''1'' [])),
        \<lparr>rc = [], trailer = [''X-Exec-Exit-Status'' \<mapsto> [''1'']]\<rparr>)
   \<and> readToEnd \<lparr>rc = [(''abc'', Some EOF)], trailer = [''X-Exec-Exit-Status'' \<mapsto> [''1'']]\<rparr>
     = ([], ExitStatusErrorf ''1'' [])
   \<and> readToEnd \<lparr>rc = [(''abc'', Some EOF)], trailer = [''X-Exec-Exit-Status'' \<mapsto> [''0'']]\<rparr>
     = (''abc'', EOF)
   \<and> readToEnd \<lparr>rc = [(''abc'', None), ([], Some EOF)],
                 trailer = [''X-Exec-Exit-Status'' \<mapsto> [''1'']]\<rparr>
     = (''abc'', ExitStatusErrorf ''1'' [])"
proof -
  let ?bad = "[''X-Exec-Exit-Status'' \<mapsto> [''1'']] :: Header"
  let ?good = "[''X-Exec-Exit-Status'' \<mapsto> [''0'']] :: Header"
  have a: "cmdReader_Read \<lparr>rc = [(''abc'', Some EOF)], trailer = ?bad\<rparr>
             = (([], Some (ExitStatusErrorf ''1'' [])), \<lparr>rc = [], trailer = ?bad\<rparr>)"
    by (simp add: cmdReader_Read_def Read_def Header_Get_def)
  have b: "cmdReader_Read \<lparr>rc = [(''abc'', Some EOF)], trailer = ?good\<rparr>
             = ((''abc'', Some EOF), \<lparr>rc = [], trailer = ?good\<rparr>)"
    by (simp add: cmdReader_Read_def Read_def Header_Get_def)
  have c: "cmdReader_Read \<lparr>rc = [(''abc'', None), ([], Some EOF)], trailer = ?bad\<rparr>
             = ((''abc'', None), \<lparr>rc = [([], Some EOF)], trailer = ?bad\<rparr>)"
    by (simp add: cmdReader_Read_def Read_def Header_Get_def)
  have d: "cmdReader_Read \<lparr>rc = [([], Some EOF)], trailer = ?bad\<rparr>
             = (([], Some (ExitStatusErrorf ''1'' [])), \<lparr>rc = [], trailer = ?bad\<rparr>)"
    by (simp add: cmdReader_Read_def Read_def Header_Get_def)
  have "readToEnd \<lparr>rc = [(''abc'', Some EOF)], trailer = ?bad\<rparr> = ([], ExitStatusErrorf ''1'' [])"
    by (subst readToEnd.simps) (simp add: a)
  moreover have "readToEnd \<lparr>rc = [(''abc'', Some EOF)], trailer = ?good\<rparr> = (''abc'', EOF)"
    by (subst readToEnd.simps) (simp add: b)
  moreover have "readToEnd \<lparr>rc = [([], Some EOF)], trailer = ?bad\<rparr> = ([], ExitStatusErrorf ''1'' [])"
    by (subst readToEnd.simps) (simp add: d)
  then have "readToEnd \<lparr>rc = [(''abc'', None), ([], Some EOF)], trailer = ?bad\<rparr>
               = (''abc'', ExitStatusErrorf ''1'' [])"
    by (subst readToEnd.simps) (simp add: c)
  ultimately show ?thesis
    using a by simp
qed

section \<open>Not-found responses\<close>

text \<open>
  C6, as the code has it. On \<open>/exec\<close>, a 404 response whose body decodes as a
  \<open>NotFoundPayload\<close> makes \<open>sendExec\<close> fail with the typed \<open>RepoNotExistError\<close> that carries
  the payload's flag, which is neither a transport error nor the generic status error. On
  \<open>/repo\<close>, \<open>RepoInfo\<close> does not decode a not-found payload: every status other than 200, 404
  included, is the generic \<open>url.Error\<close> naming the status code; only a 200 response is
  decoded, and the result is what the decoder gives.
\<close>

theorem not_found_on_exec_and_repo:
  assumes "Addrs (client c) \<noteq> []" "length (Addrs (client c)) < 2 ^ 63"
    and "length (md5_Sum env (bytes_of (NormalizeRepo env ident))) = 16"
    and "Repo c = Some repo" "URI repo = ident" "Args c \<noteq> []" "Err ctx = None"
    and "httpPost env ctx (route env (Addrs (client c)) ident) ''exec''
           (ExecRequest (NormalizeRepo env ident) (EnsureRevision c) (tl (Args c))) w
         = (Inr resp, w')"
    and "StatusCode resp = 404" "decodeNotFoundPayload env (Body resp) = (cip, None)"
    and "Addrs cl = a # as"
    and "httpPost env ctx a ''repo'' (RepoInfoRequest name) v = (Inr resp', v')"
  shows "sendExec env c ctx w = (Returns (Inl (RepoNotExistError cip)), w')
       \<and> RepoNotExistError cip \<noteq> TransportError m
       \<and> RepoNotExistError cip \<noteq> UnexpectedStatusCode n
       \<and> RepoInfo env cl ctx name v
           = (if StatusCode resp' \<noteq> 200
              then (Returns (None, Some (URLError (RequestURL resp') ''RepoInfo''
                                           (RepoInfoStatus (StatusCode resp')))), v')
              else (Returns (decodeRepoInfoResponse env (Body resp')), v'))"
  using assms(8-12)
  by (simp add: sendExec_routed [OF assms(1-7)] RepoInfo_def)

theorem not_found_on_exec_and_repo_witness:
  "sendExec
       (sample_env (respond 404 [(''{\"cloneInProgress\":true}'', Some EOF)] Map.empty))
       sample_cmd live sample_world
     = (Returns (Inl (RepoNotExistError True)),
        \<lparr>deadlineExceededCounter = 0,
         requests = [\<lparr>Method = ''POST'', URL = ''http://gitserver-2:3178/exec'',
                      Payload = ExecRequest ''github.com/golang/go'' [] [''log'']\<rparr>]\<rparr>)
   \<and> RepoInfo
       (sample_env (respond 404 [(''{\"cloneInProgress\":true}'', Some EOF)] Map.empty))
       sample_client live ''github.com/golang/go'' sample_world
     = (Returns (None, Some (URLError ''http://gitserver-0:3178/repo'' ''RepoInfo''
                               (RepoInfoStatus 404))),
        \<lparr>deadlineExceededCounter = 0,
         requests = [\<lparr>Method = ''POST'', URL = ''http://gitserver-0:3178/repo'',
                      Payload = RepoInfoRequest ''github.com/golang/go''\<rparr>]\<rparr>)"
proof -
  let ?body = "[(''{\"cloneInProgress\":true}'', Some EOF)] :: ReadCloser"
  let ?env = "sample_env (respond 404 ?body Map.empty)"
  let ?req = "\<lparr>Method = ''POST'', URL = ''http://gitserver-2:3178/exec'',
               Payload = ExecRequest ''github.com/golang/go'' [] [''log'']\<rparr>"
  let ?req' = "\<lparr>Method = ''POST'', URL = ''http://gitserver-0:3178/repo'',
                Payload = RepoInfoRequest ''github.com/golang/go''\<rparr>"
  let ?resp = "\<lparr>StatusCode = 404, Body = ?body, Trailer = Map.empty,
                RequestURL = ''http://gitserver-2:3178/exec''\<rparr>"
  let ?resp' = "\<lparr>StatusCode = 404, Body = ?body, Trailer = Map.empty,
                 RequestURL = ''http://gitserver-0:3178/repo''\<rparr>"
  have t: "Addrs (client sample_cmd) \<noteq> []" "length (Addrs (client sample_cmd)) < 2 ^ 63"
    by (simp_all add: sample_client_def sample_cmd_def)
  have d: "length (md5_Sum ?env (bytes_of (NormalizeRepo ?env ''github.com/golang/go''))) = 16"
    by (simp add: sample_env_def)
  have c: "Repo sample_cmd = Some \<lparr>URI = ''github.com/golang/go''\<rparr>"
    "URI \<lparr>URI = ''github.com/golang/go''\<rparr> = ''github.com/golang/go''"
    "Args sample_cmd \<noteq> []" "Err live = None"
    by (simp_all add: sample_cmd_def live_def)
  have r: "route ?env (Addrs (client sample_cmd)) ''github.com/golang/go'' = ''gitserver-2:3178''"
    using route_sample [of "respond 404 ?body Map.empty"] by (simp add: sample_cmd_def)
  have p: "httpPost ?env live (route ?env (Addrs (client sample_cmd)) ''github.com/golang/go'')
             ''exec'' (ExecRequest (NormalizeRepo ?env ''github.com/golang/go'')
                         (EnsureRevision sample_cmd) (tl (Args sample_cmd))) sample_world
           = (Inr ?resp, \<lparr>deadlineExceededCounter = 0, requests = [?req]\<rparr>)"
    unfolding r
    by (simp add: httpPost_def sample_env_def respond_def sample_cmd_def sample_world_def Let_def)
  have s: "StatusCode ?resp = 404" by simp
  have n: "decodeNotFoundPayload ?env (Body ?resp) = (True, None)"
    by (simp add: sample_env_def)
  have a: "Addrs sample_client = ''gitserver-0:3178'' # [''gitserver-1:3178'', ''gitserver-2:3178'']"
    by (simp add: sample_client_def)
  have q: "httpPost ?env live ''gitserver-0:3178'' ''repo'' (RepoInfoRequest ''github.com/golang/go'')
             sample_world
           = (Inr ?resp', \<lparr>deadlineExceededCounter = 0, requests = [?req']\<rparr>)"
    by (simp add: httpPost_def sample_env_def respond_def sample_world_def Let_def)
  show ?thesis
    using not_found_on_exec_and_repo [OF t d c p s n a q]
    by simp
qed

theorem RepoInfo_404_is_generic_error_counterexample:
  "RepoInfo
       (sample_env (respond 404 [(''{\"cloneInProgress\":true}'', Some EOF)] Map.empty))
       sample_client live ''github.com/golang/go'' sample_world
     = (Returns (None, Some (URLError ''http://gitserver-0:3178/repo'' ''RepoInfo''
                               (RepoInfoStatus 404))),
        \<lparr>deadlineExceededCounter = 0,
         requests = [\<lparr>Method = ''POST'', URL = ''http://gitserver-0:3178/repo'',
                      Payload = RepoInfoRequest ''github.com/golang/go''\<rparr>]\<rparr>)
   \<and> URLError ''http://gitserver-0:3178/repo'' ''RepoInfo'' (RepoInfoStatus 404)
     \<noteq> RepoNotExistError True"
  by (simp add: RepoInfo_def httpPost_def sample_env_def respond_def sample_world_def
        sample_client_def Let_def)

section \<open>The list fan-out\<close>

lemma first_failure_Cons:
  "first_failure (e # es) = (if e \<noteq> None \<and> e \<noteq> Some Canceled then e else first_failure es)"
  by (simp add: first_failure_def)

lemma workers_from:
  "combinedList (foldl (worker env) s gets)
     = combinedList s @ concat (map (\<lambda>g. fst (doListOne env g)) gets)
   \<and> err (foldl (worker env) s gets)
     = (case err s of
          Some e \<Rightarrow> Some e
        | None \<Rightarrow> first_failure (map (\<lambda>g. snd (doListOne env g)) gets))
   \<and> cancelled (foldl (worker env) s gets)
     = (cancelled s
        \<or> (err s = None \<and> first_failure (map (\<lambda>g. snd (doListOne env g)) gets) \<noteq> None))"
proof (induction gets arbitrary: s)
  case Nil
  then show ?case
    by (simp add: first_failure_def split: option.splits)
next
  case (Cons g gets)
  obtain list listErr where d: "doListOne env g = (list, listErr)"
    by (cases "doListOne env g")
  show ?case
  proof (cases "listErr \<noteq> None \<and> listErr \<noteq> Some Canceled \<and> err s = None")
    case True
    then obtain e where e: "listErr = Some e" by auto
    from True e have w: "worker env s g
        = s\<lparr>cancelled := True, err := Some e, combinedList := combinedList s @ list\<rparr>"
      by (simp add: worker_def d Let_def)
    show ?thesis
      using True e
      by (simp add: Cons.IH w d first_failure_Cons)
  next
    case False
    then have w: "worker env s g = s\<lparr>combinedList := combinedList s @ list\<rparr>"
      by (auto simp: worker_def d Let_def)
    show ?thesis
      using False
      by (auto simp: Cons.IH w d first_failure_Cons split: option.splits)
  qed
qed

lemma workers_result:
  "combinedList (workers env gets) = concat (map (\<lambda>g. fst (doListOne env g)) gets)"
  "err (workers env gets) = first_failure (map (\<lambda>g. snd (doListOne env g)) gets)"
  "cancelled (workers env gets)
     = (first_failure (map (\<lambda>g. snd (doListOne env g)) gets) \<noteq> None)"
  using workers_from [of env "\<lparr>err = None, combinedList = [], cancelled = False\<rparr>" gets]
  by (simp_all add: workers_def)

text \<open>
  C5. With two or more addresses, whatever the order in which the workers take the mutex:
  the list returned is the sorted merge of all the lists the shards gave (it is sorted and
  holds every element of every per-shard list, as often as the shards gave it); the error
  returned is the first per-shard failure, in that order, that is not a cancellation, later
  failures being ignored; the shared context is cancelled by a worker exactly when a failure
  has been recorded, in every prefix of the run; and the list and the error are returned
  together.
\<close>

theorem doListMulti_merges_and_keeps_first_error:
  assumes "2 \<le> length gets"
  shows "fst (doListMulti env gets) = sort (concat (map (\<lambda>g. fst (doListOne env g)) gets))
       \<and> sorted (fst (doListMulti env gets))
       \<and> mset (fst (doListMulti env gets))
           = mset (concat (map (\<lambda>g. fst (doListOne env g)) gets))
       \<and> snd (doListMulti env gets) = first_failure (map (\<lambda>g. snd (doListOne env g)) gets)
       \<and> (\<forall>k. cancelled (workers env (take k gets))
                = (err (workers env (take k gets)) \<noteq> None))"
proof -
  have n: "length gets \<noteq> 1"
    using assms by simp
  have l: "fst (doListMulti env gets) = sort (concat (map (\<lambda>g. fst (doListOne env g)) gets))"
    using n by (simp add: doListMulti_def Let_def workers_result)
  have e: "snd (doListMulti env gets) = first_failure (map (\<lambda>g. snd (doListOne env g)) gets)"
    using n by (simp add: doListMulti_def Let_def workers_result)
  have c: "\<forall>k. cancelled (workers env (take k gets)) = (err (workers env (take k gets)) \<noteq> None)"
    by (simp add: workers_result)
  show ?thesis
    using l e c by simp
qed

lemma sort_sample: "sort [''c'', ''b'', ''a''] = [''a'', ''b'', ''c'']"
  by code_simp

theorem doListMulti_merges_and_keeps_first_error_witness:
  "doListMulti (sample_env (respond 200 [] Map.empty))
     [Inr \<lparr>StatusCode = 200, Body = [(''[\"c\"]'', Some EOF)], Trailer = Map.empty,
           RequestURL = ''http://gitserver-2:3178/list?cloning''\<rparr>,
      Inl (TransportError ''connection refused''),
      Inr \<lparr>StatusCode = 200, Body = [(''[\"b\",\"a\"]'', Some EOF)], Trailer = Map.empty,
           RequestURL = ''http://gitserver-0:3178/list?cloning''\<rparr>]
   = ([''a'', ''b'', ''c''], Some (TransportError ''connection refused''))"
proof -
  let ?env = "sample_env (respond 200 [] Map.empty)"
  let ?c = "Inr \<lparr>StatusCode = 200, Body = [(''[\"c\"]'', Some EOF)], Trailer = Map.empty,
                 RequestURL = ''http://gitserver-2:3178/list?cloning''\<rparr> :: error + Response"
  let ?x = "Inl (TransportError ''connection refused'') :: error + Response"
  let ?ba = "Inr \<lparr>StatusCode = 200, Body = [(''[\"b\",\"a\"]'', Some EOF)], Trailer = Map.empty,
                  RequestURL = ''http://gitserver-0:3178/list?cloning''\<rparr> :: error + Response"
  have d: "doListOne ?env ?c = ([''c''], None)"
    "doListOne ?env ?x = ([], Some (TransportError ''connection refused''))"
    "doListOne ?env ?ba = ([''b'', ''a''], None)"
    by (simp_all add: doListOne_def sample_env_def)
  have n: "2 \<le> length [?c, ?x, ?ba]" by simp
  have "fst (doListMulti ?env [?c, ?x, ?ba]) = [''a'', ''b'', ''c'']
        \<and> snd (doListMulti ?env [?c, ?x, ?ba]) = Some (TransportError ''connection refused'')"
    using doListMulti_merges_and_keeps_first_error [OF n, of ?env]
    by (simp add: d sort_sample first_failure_def)
  then show ?thesis
    by (simp add: prod_eq_iff)
qed

section \<open>The memoized RepoInfo of the resolver\<close>

lemma httpPost_requests:
  "httpPost env ctx addr m p w = (x, w') \<Longrightarrow>
     length (requests w') \<le> length (requests w) + 1"
  by (auto simp: httpPost_def Let_def split: option.splits)

lemma RepoInfo_requests:
  "RepoInfo env c ctx repo w = (x, w') \<Longrightarrow>
     length (requests w') \<le> length (requests w) + 1"
  by (auto simp: RepoInfo_def split: list.splits prod.splits sum.splits if_splits
        dest: httpPost_requests)

lemma gitserverRepoInfo_done:
  "repoInfoOnce r \<Longrightarrow>
     gitserverRepoInfo env r ctx w = (Returns (repoInfoResponse r, repoInfoErr r), r, w)"
  by (simp add: gitserverRepoInfo_def)

lemma gitserverRepoInfo_first:
  assumes "\<not> repoInfoOnce r" "gitserverRepoInfo env r ctx w = (res, r', w')"
  shows "repoInfoOnce r' \<and> repository r' = repository r
       \<and> (res, w') = RepoInfo env (DefaultClient env) ctx (repository r) w
       \<and> (\<forall>v. res = Returns v \<longrightarrow> v = (repoInfoResponse r', repoInfoErr r'))"
  using assms
  by (auto simp: gitserverRepoInfo_def split: prod.splits outcome.splits)

lemma resolve_cases:
  "resolve env f r ctx w = (res, r', w') \<Longrightarrow>
     (r' = r \<and> w' = w \<and> f = FRemoteURL \<and> CheckCurrentUserIsSiteAdmin env ctx \<noteq> None)
     \<or> (\<exists>x. gitserverRepoInfo env r ctx w = (x, r', w'))"
  by (cases f)
     (auto simp: resolve_def RemoteURL_def Cloned_def CloneInProgress_def UpdatedAt_def
        split: option.splits prod.splits outcome.splits)

lemma resolve_reaches:
  assumes "f \<noteq> FRemoteURL \<or> CheckCurrentUserIsSiteAdmin env ctx = None"
    and "resolve env f r ctx w = (res, r', w')"
  shows "\<exists>x. gitserverRepoInfo env r ctx w = (x, r', w')"
  using resolve_cases [OF assms(2)] assms(1) by auto

lemma resolve_done:
  assumes "repoInfoOnce r" "resolve env f r ctx w = (res, r', w')"
  shows "r' = r \<and> w' = w"
  using resolve_cases [OF assms(2)] assms(1) by (auto simp: gitserverRepoInfo_done)

lemma resolveAll_done:
  "repoInfoOnce r \<Longrightarrow> resolveAll env cs r w = (r, w)"
proof (induction cs)
  case Nil
  then show ?case by simp
next
  case (Cons a cs)
  obtain f ctx where a: "a = (f, ctx)" by (cases a)
  obtain res r' w' where s: "resolve env f r ctx w = (res, r', w')"
    by (cases "resolve env f r ctx w")
  from resolve_done [OF Cons.prems s] Cons show ?case
    by (simp add: a s)
qed

lemma resolveAll_requests:
  "\<not> repoInfoOnce r \<Longrightarrow> resolveAll env cs r w = (r', w') \<Longrightarrow>
     length (requests w') \<le> length (requests w) + 1"
proof (induction cs arbitrary: r w)
  case Nil
  then show ?case by simp
next
  case (Cons a cs)
  obtain f ctx where a: "a = (f, ctx)" by (cases a)
  obtain res r1 w1 where s: "resolve env f r ctx w = (res, r1, w1)"
    by (cases "resolve env f r ctx w")
  from Cons.prems(2) have rest: "resolveAll env cs r1 w1 = (r', w')"
    by (simp add: a s)
  from resolve_cases [OF s] show ?case
  proof
    assume "r1 = r \<and> w1 = w \<and> f = FRemoteURL \<and> CheckCurrentUserIsSiteAdmin env ctx \<noteq> None"
    with Cons.IH [OF Cons.prems(1), of w] rest show ?thesis by simp
  next
    assume "\<exists>x. gitserverRepoInfo env r ctx w = (x, r1, w1)"
    then obtain x where g: "gitserverRepoInfo env r ctx w = (x, r1, w1)" by blast
    from gitserverRepoInfo_first [OF Cons.prems(1) g]
    have once: "repoInfoOnce r1"
      and rpc: "(x, w1) = RepoInfo env (DefaultClient env) ctx (repository r) w"
      by simp_all
    from rpc have "length (requests w1) \<le> length (requests w) + 1"
      by (metis RepoInfo_requests)
    moreover from resolveAll_done [OF once, of env cs w1] rest have "w' = w1" by simp
    ultimately show ?thesis by simp
  qed
qed

text \<open>
  C9, as the code has it. On one resolver the \<open>RepoInfo\<close> call of the gitserver client runs at
  most once: over any sequence of \<open>RemoteURL\<close>, \<open>Cloned\<close>, \<open>CloneInProgress\<close> and \<open>UpdatedAt\<close>
  calls on a fresh resolver at most one HTTP request is issued. The remote read is done by
  the first call that reaches \<open>gitserverRepoInfo\<close>: any call of \<open>Cloned\<close>, \<open>CloneInProgress\<close>
  or \<open>UpdatedAt\<close>, and a call of \<open>RemoteURL\<close> that has passed the site-admin check. A
  \<open>RemoteURL\<close> call that fails that check returns its error without a remote read and leaves
  the resolver as it was. Once the read is done, every later call gets the memoized
  response-and-error pair and changes neither the resolver nor the world.
\<close>

theorem RepoInfo_is_read_at_most_once:
  assumes "resolveAll env cs (MirrorInfo uri) w = (r', w')"
    and "f \<noteq> FRemoteURL \<or> CheckCurrentUserIsSiteAdmin env ctx = None"
    and "resolve env f (MirrorInfo uri) ctx v = (res, r1, v1)"
    and "repoInfoOnce r"
    and "CheckCurrentUserIsSiteAdmin env ctx' = Some e"
  shows "length (requests w') \<le> length (requests w) + 1
       \<and> repoInfoOnce r1
       \<and> v1 = snd (RepoInfo env (DefaultClient env) ctx uri v)
       \<and> (\<forall>x. fst (RepoInfo env (DefaultClient env) ctx uri v) = Returns x \<longrightarrow>
              x = (repoInfoResponse r1, repoInfoErr r1))
       \<and> gitserverRepoInfo env r ctx'' v'' = (Returns (repoInfoResponse r, repoInfoErr r), r, v'')
       \<and> resolveAll env cs' r v'' = (r, v'')
       \<and> RemoteURL env r2 ctx' v2 = (Returns (VString [], Some e), r2, v2)"
proof -
  have fresh: "\<not> repoInfoOnce (MirrorInfo uri)" "repository (MirrorInfo uri) = uri"
    by (simp_all add: MirrorInfo_def)
  have a: "length (requests w') \<le> length (requests w) + 1"
    using resolveAll_requests [OF fresh(1) assms(1)] .
  from resolve_reaches [OF assms(2,3)] obtain x where
    g: "gitserverRepoInfo env (MirrorInfo uri) ctx v = (x, r1, v1)" by blast
  from gitserverRepoInfo_first [OF fresh(1) g] fresh(2)
  have b: "repoInfoOnce r1" "(x, v1) = RepoInfo env (DefaultClient env) ctx uri v"
    "\<forall>y. x = Returns y \<longrightarrow> y = (repoInfoResponse r1, repoInfoErr r1)"
    by simp_all
  from b(2) have b2: "v1 = snd (RepoInfo env (DefaultClient env) ctx uri v)"
    "x = fst (RepoInfo env (DefaultClient env) ctx uri v)"
    by (metis snd_conv, metis fst_conv)
  have d: "RemoteURL env r2 ctx' v2 = (Returns (VString [], Some e), r2, v2)"
    using assms(5) by (simp add: RemoteURL_def)
  show ?thesis
    using a b(1) b(3) b2 d gitserverRepoInfo_done [OF assms(4)] resolveAll_done [OF assms(4)]
    by simp
qed


lemma sample_first_read:
  "resolve (sample_env (respond 200 [] Map.empty)) FCloned (MirrorInfo ''github.com/golang/go'')
       live sample_world
     = (Returns (VBool True, None),
        \<lparr>repository = ''github.com/golang/go'', repoInfoOnce = True,
         repoInfoResponse = Some sample_info, repoInfoErr = None\<rparr>,
        \<lparr>deadlineExceededCounter = 0,
         requests = [\<lparr>Method = ''POST'', URL = ''http://gitserver-0:3178/repo'',
                      Payload = RepoInfoRequest ''github.com/golang/go''\<rparr>]\<rparr>)"
  by (simp add: resolve_def Cloned_def gitserverRepoInfo_def RepoInfo_def httpPost_def
        sample_env_def respond_def MirrorInfo_def sample_client_def sample_world_def
        sample_info_def Let_def)

theorem RepoInfo_is_read_at_most_once_witness:
  "length (requests (snd (resolveAll (sample_env (respond 200 [] Map.empty))
       [(FCloned, live), (FRemoteURL, live), (FUpdatedAt, visitor)]
       (MirrorInfo ''github.com/golang/go'') sample_world))) \<le> 1
   \<and> gitserverRepoInfo (sample_env (respond 200 [] Map.empty))
       \<lparr>repository = ''github.com/golang/go'', repoInfoOnce = True,
        repoInfoResponse = Some sample_info, repoInfoErr = None\<rparr> visitor sample_world
     = (Returns (Some sample_info, None),
        \<lparr>repository = ''github.com/golang/go'', repoInfoOnce = True,
         repoInfoResponse = Some sample_info, repoInfoErr = None\<rparr>, sample_world)
   \<and> RemoteURL (sample_env (respond 200 [] Map.empty)) (MirrorInfo ''github.com/golang/go'')
       visitor sample_world
     = (Returns (VString [], Some NotSiteAdmin), MirrorInfo ''github.com/golang/go'',
        sample_world)"
proof -
  let ?env = "sample_env (respond 200 [] Map.empty)"
  let ?cs = "[(FCloned, live), (FRemoteURL, live), (FUpdatedAt, visitor)]"
  let ?r = "\<lparr>repository = ''github.com/golang/go'', repoInfoOnce = True,
             repoInfoResponse = Some sample_info, repoInfoErr = None\<rparr>"
  have h1: "resolveAll ?env ?cs (MirrorInfo ''github.com/golang/go'') sample_world
              = (fst (resolveAll ?env ?cs (MirrorInfo ''github.com/golang/go'') sample_world),
                 snd (resolveAll ?env ?cs (MirrorInfo ''github.com/golang/go'') sample_world))"
    by simp
  have h2: "FCloned \<noteq> FRemoteURL \<or> CheckCurrentUserIsSiteAdmin ?env live = None"
    by simp
  have h4: "repoInfoOnce ?r" by simp
  have h5: "CheckCurrentUserIsSiteAdmin ?env visitor = Some NotSiteAdmin"
    by (simp add: sample_env_def visitor_def)
  show ?thesis
    using RepoInfo_is_read_at_most_once [OF h1 h2 sample_first_read h4 h5,
        of visitor sample_world "[]" "MirrorInfo ''github.com/golang/go''" sample_world]
    by (simp add: sample_world_def)
qed

theorem first_call_without_remote_read_counterexample:
  "RemoteURL (sample_env (respond 200 [] Map.empty)) (MirrorInfo ''github.com/golang/go'')
       visitor sample_world
     = (Returns (VString [], Some NotSiteAdmin), MirrorInfo ''github.com/golang/go'',
        sample_world)
   \<and> requests sample_world = []
   \<and> \<not> repoInfoOnce (MirrorInfo ''github.com/golang/go'')
   \<and> resolveAll (sample_env (respond 200 [] Map.empty))
       [(FRemoteURL, visitor), (FCloned, visitor)]
       (MirrorInfo ''github.com/golang/go'') sample_world
     = (\<lparr>repository = ''github.com/golang/go'', repoInfoOnce = True,
         repoInfoResponse = Some sample_info, repoInfoErr = None\<rparr>,
        \<lparr>deadlineExceededCounter = 0,
         requests = [\<lparr>Method = ''POST'', URL = ''http://gitserver-0:3178/repo'',
                      Payload = RepoInfoRequest ''github.com/golang/go''\<rparr>]\<rparr>)"
  by (simp add: resolve_def RemoteURL_def Cloned_def gitserverRepoInfo_def RepoInfo_def
        httpPost_def sample_env_def respond_def MirrorInfo_def sample_client_def
        sample_world_def sample_info_def visitor_def Let_def)

end
